theory Spec2Isabelle
  imports Complex_Main "HOL-Library.Word"
begin

section \<open>JavaScript values\<close>

text \<open>
  A JavaScript string is a sequence of UTF-16 code units. \<open>lit\<close> embeds an ASCII literal
  of the source. \<open>trim\<close> is \<^verbatim>\<open>String.prototype.trim\<close>: it removes the leading and
  the trailing code units that ECMAScript calls WhiteSpace or LineTerminator.
\<close>

type_synonym jsstring = "16 word list"

definition lit :: "string \<Rightarrow> jsstring" where
  "lit s = map (\<lambda>c. of_nat (of_char c)) s"

definition isWhiteSpace :: "16 word \<Rightarrow> bool" where
  "isWhiteSpace c \<longleftrightarrow>
     c = 0x9 \<or> c = 0xA \<or> c = 0xB \<or> c = 0xC \<or> c = 0xD \<or> c = 0x20 \<or> c = 0xA0 \<or>
     c = 0x1680 \<or> (0x2000 \<le> c \<and> c \<le> 0x200A) \<or> c = 0x2028 \<or> c = 0x2029 \<or>
     c = 0x202F \<or> c = 0x205F \<or> c = 0x3000 \<or> c = 0xFEFF"

definition trim :: "jsstring \<Rightarrow> jsstring" where
  "trim s = rev (dropWhile isWhiteSpace (rev (dropWhile isWhiteSpace s)))"

text \<open>
  A JavaScript number. \<open>Finite r\<close> stands for the double written \<open>r\<close> in the source;
  the hooks only compare and select numbers (\<^verbatim>\<open>Math.min\<close>, \<^verbatim>\<open>Math.max\<close>), they
  never compute with them, so no rounding is involved. Both functions return NaN as soon
  as one argument is NaN.
\<close>

datatype number = NaN | NegInfinity | Finite real | Infinity

fun num_le :: "number \<Rightarrow> number \<Rightarrow> bool" where
  "num_le NaN _ = False"
| "num_le _ NaN = False"
| "num_le NegInfinity _ = True"
| "num_le _ Infinity = True"
| "num_le (Finite x) (Finite y) = (x \<le> y)"
| "num_le _ _ = False"

definition Math_min :: "number \<Rightarrow> number \<Rightarrow> number" where
  "Math_min a b = (if a = NaN \<or> b = NaN then NaN else if num_le a b then a else b)"

definition Math_max :: "number \<Rightarrow> number \<Rightarrow> number" where
  "Math_max a b = (if a = NaN \<or> b = NaN then NaN else if num_le a b then b else a)"

datatype exception = TypeError

section \<open>React state hooks\<close>

text \<open>
  Both hooks keep their data in \<^verbatim>\<open>useState\<close> cells and \<^verbatim>\<open>useRef\<close> boxes of one
  component. A ref is written at once. A state setter does not write: React records the
  update and applies it when it next renders the component, and an updater function
  \<^verbatim>\<open>prev => ...\<close> is called at that moment, so what it reads from a ref is what the
  ref holds then. The one exception is React's eager path: a setter called while the
  component has no update scheduled computes the new value immediately; when that value
  is identical (\<^verbatim>\<open>Object.is\<close>) to the rendered one the call is dropped, otherwise the
  computed value is queued and an update is scheduled.

  \<open>memoizedState\<close> holds the rendered state cells together with the refs, \<open>lanes\<close> says
  whether an update is scheduled, \<open>queue\<close> the recorded updates in call order. The
  parameters of \<open>dispatchSetState\<close> are the cell (how to read and how to write it), the
  identity test for its values and the action, which computes the new value from the
  state it is applied to. Events are taken one at a time: \<open>event\<close> runs a handler on a
  rendered component and renders it, which applies the queue in order.
\<close>

record 's fiber =
  memoizedState :: 's
  lanes :: bool
  queue :: "('s \<Rightarrow> 's) list"

definition dispatchSetState ::
  "('s \<Rightarrow> 'a) \<Rightarrow> ('a \<Rightarrow> 's \<Rightarrow> 's) \<Rightarrow> ('a \<Rightarrow> 'a \<Rightarrow> bool) \<Rightarrow> ('s \<Rightarrow> 'a) \<Rightarrow> 's fiber \<Rightarrow> 's fiber" where
  "dispatchSetState get put is action f =
     (if \<not> lanes f then
        (let eagerState = action (memoizedState f) in
         if is eagerState (get (memoizedState f)) then f
         else f\<lparr>lanes := True, queue := queue f @ [put eagerState]\<rparr>)
      else f\<lparr>queue := queue f @ [\<lambda>s. put (action s) s]\<rparr>)"

definition render :: "'s fiber \<Rightarrow> 's fiber" where
  "render f = \<lparr>memoizedState = foldl (\<lambda>s u. u s) (memoizedState f) (queue f),
               lanes = False, queue = []\<rparr>"

definition rendered :: "'s \<Rightarrow> 's fiber" where
  "rendered s = \<lparr>memoizedState = s, lanes = False, queue = []\<rparr>"

definition event :: "('s fiber \<Rightarrow> 's fiber) \<Rightarrow> 's \<Rightarrow> 's" where
  "event handler s = memoizedState (render (handler (rendered s)))"

text \<open>A handler that may throw: nothing it did before is kept (the handlers below throw
  before their first write), and the caller sees the exception.\<close>

definition event_try :: "('s fiber \<Rightarrow> exception + 's fiber) \<Rightarrow> 's \<Rightarrow> exception + 's" where
  "event_try handler s =
     (case handler (rendered s) of
        Inl e \<Rightarrow> Inl e
      | Inr f \<Rightarrow> Inr (memoizedState (render f)))"

section \<open>The recognition hook: \<^verbatim>\<open>useSpeechRecognition\<close>\<close>

text \<open>
  The platform's data, as the handlers read it. A result is the list of its alternatives
  with the \<^verbatim>\<open>isFinal\<close> flag; the handlers read the transcript of alternative 0 only,
  and the confidence of an alternative never, so it is left out.
  The recognition object is the browser's: \<open>started\<close> and \<open>stopRequested\<close> record the
  calls to \<^verbatim>\<open>start()\<close> and \<^verbatim>\<open>stop()\<close> it has received. \<^verbatim>\<open>start()\<close> on an object
  already started throws an exception, an \<^verbatim>\<open>Error\<close> whose message the browser
  chooses (\<open>startFailure\<close>); \<open>start\<close> returns that message on the left.
\<close>

record SpeechRecognitionAlternative =
  transcript :: jsstring

record SpeechRecognitionResult =
  isFinal :: bool
  alternatives :: "SpeechRecognitionAlternative list"

record SpeechRecognitionEvent =
  resultIndex :: nat
  results :: "SpeechRecognitionResult list"

record SpeechRecognitionErrorEvent =
  event_error :: jsstring
  event_message :: "jsstring option"

record SpeechRecognitionError =
  err :: jsstring
  message :: jsstring

record SpeechRecognition =
  started :: bool
  stopRequested :: bool
  startFailure :: jsstring

definition start :: "SpeechRecognition \<Rightarrow> jsstring + SpeechRecognition" where
  "start r = (if started r then Inl (startFailure r) else Inr (r\<lparr>started := True\<rparr>))"

definition stop :: "SpeechRecognition \<Rightarrow> SpeechRecognition" where
  "stop r = (if started r then r\<lparr>stopRequested := True\<rparr> else r)"

text \<open>The state cells of the hook (lines 108 to 114) and its two refs (lines 117, 119).\<close>

record SpeechRecognitionHook =
  finalTranscript :: jsstring
  interimTranscript :: jsstring
  isListening :: bool
  error :: "SpeechRecognitionError option"
  recognitionRef :: "SpeechRecognition option"
  latestInterimRef :: jsstring

text \<open>The error descriptors the hook builds itself (lines 124, 217 and 219).\<close>

definition BrowserNotSupported :: SpeechRecognitionError where
  "BrowserNotSupported = \<lparr>err = lit ''BrowserNotSupported'',
     message = lit ''Web Speech API is not supported by your browser.''\<rparr>"

definition AlreadyListening :: SpeechRecognitionError where
  "AlreadyListening = \<lparr>err = lit ''AlreadyListening'',
     message = lit ''Recognition is already active.''\<rparr>"

definition NotInitialized :: SpeechRecognitionError where
  "NotInitialized = \<lparr>err = lit ''NotInitialized'',
     message = lit ''Speech Recognition not initialized. Browser might not support it.''\<rparr>"

definition setFinalTranscript ::
  "(SpeechRecognitionHook \<Rightarrow> jsstring) \<Rightarrow> SpeechRecognitionHook fiber \<Rightarrow> SpeechRecognitionHook fiber" where
  "setFinalTranscript = dispatchSetState finalTranscript (\<lambda>v s. s\<lparr>finalTranscript := v\<rparr>) (=)"

definition setInterimTranscript ::
  "(SpeechRecognitionHook \<Rightarrow> jsstring) \<Rightarrow> SpeechRecognitionHook fiber \<Rightarrow> SpeechRecognitionHook fiber" where
  "setInterimTranscript = dispatchSetState interimTranscript (\<lambda>v s. s\<lparr>interimTranscript := v\<rparr>) (=)"

definition setIsListening ::
  "(SpeechRecognitionHook \<Rightarrow> bool) \<Rightarrow> SpeechRecognitionHook fiber \<Rightarrow> SpeechRecognitionHook fiber" where
  "setIsListening = dispatchSetState isListening (\<lambda>v s. s\<lparr>isListening := v\<rparr>) (=)"

text \<open>An error descriptor is a fresh object, identical to no other; only \<^verbatim>\<open>null\<close> is
  identical to \<^verbatim>\<open>null\<close>.\<close>

definition setError ::
  "(SpeechRecognitionHook \<Rightarrow> SpeechRecognitionError option) \<Rightarrow> SpeechRecognitionHook fiber \<Rightarrow> SpeechRecognitionHook fiber" where
  "setError = dispatchSetState error (\<lambda>v s. s\<lparr>error := v\<rparr>) (\<lambda>a b. a = None \<and> b = None)"

definition set_latestInterimRef :: "jsstring \<Rightarrow> SpeechRecognitionHook fiber \<Rightarrow> SpeechRecognitionHook fiber" where
  "set_latestInterimRef v f = f\<lparr>memoizedState := (memoizedState f)\<lparr>latestInterimRef := v\<rparr>\<rparr>"

definition set_recognitionRef ::
  "SpeechRecognition option \<Rightarrow> SpeechRecognitionHook fiber \<Rightarrow> SpeechRecognitionHook fiber" where
  "set_recognitionRef v f = f\<lparr>memoizedState := (memoizedState f)\<lparr>recognitionRef := v\<rparr>\<rparr>"

text \<open>
  The loop of \<^verbatim>\<open>onresult\<close> (lines 143 to 152) over the results from \<^verbatim>\<open>resultIndex\<close>
  on, with its two local strings \<^verbatim>\<open>currentSessionInterim\<close> and
  \<^verbatim>\<open>currentSessionFinal\<close>. \<^verbatim>\<open>result[0]\<close> of a result without alternatives is
  \<^verbatim>\<open>undefined\<close>, and reading its \<^verbatim>\<open>transcript\<close> throws.
\<close>

fun onresult_loop ::
  "SpeechRecognitionResult list \<Rightarrow> jsstring \<Rightarrow> jsstring \<Rightarrow> exception + (jsstring \<times> jsstring)" where
  "onresult_loop [] currentSessionInterim currentSessionFinal =
     Inr (currentSessionInterim, currentSessionFinal)"
| "onresult_loop (result # rest) currentSessionInterim currentSessionFinal =
     (case alternatives result of
        [] \<Rightarrow> Inl TypeError
      | alt0 # _ \<Rightarrow>
          (if isFinal result
           then onresult_loop rest currentSessionInterim
                  (currentSessionFinal @ transcript alt0 @ lit '' '')
           else onresult_loop rest (currentSessionInterim @ transcript alt0)
                  currentSessionFinal))"

definition onresult ::
  "SpeechRecognitionEvent \<Rightarrow> SpeechRecognitionHook fiber \<Rightarrow> exception + SpeechRecognitionHook fiber" where
  "onresult ev f =
     (case onresult_loop (drop (resultIndex ev) (results ev)) [] [] of
        Inl e \<Rightarrow> Inl e
      | Inr (currentSessionInterim, currentSessionFinal) \<Rightarrow>
          (let f1 = setFinalTranscript (\<lambda>s. trim (finalTranscript s @ currentSessionFinal)) f;
               f2 = setInterimTranscript (\<lambda>_. trim currentSessionInterim) f1;
               f3 = set_latestInterimRef (trim currentSessionInterim) f2
           in Inr (setError (\<lambda>_. None) f3)))"

definition onstart :: "SpeechRecognitionHook fiber \<Rightarrow> SpeechRecognitionHook fiber" where
  "onstart f =
     (let f1 = setIsListening (\<lambda>_. True) f;
          f2 = setError (\<lambda>_. None) f1;
          f3 = setFinalTranscript (\<lambda>_. []) f2;
          f4 = setInterimTranscript (\<lambda>_. []) f3
      in set_latestInterimRef [] f4)"

text \<open>
  \<^verbatim>\<open>onend\<close> (lines 172 to 180). The test of line 174 reads the ref when the handler
  runs; the updater of line 175 reads it when the update is applied.
\<close>

definition onend :: "SpeechRecognitionHook fiber \<Rightarrow> SpeechRecognitionHook fiber" where
  "onend f =
     (let f1 = setIsListening (\<lambda>_. False) f;
          f2 = (if latestInterimRef (memoizedState f1) \<noteq> []
                then setFinalTranscript
                       (\<lambda>s. trim (finalTranscript s @ lit '' '' @ latestInterimRef s)) f1
                else f1);
          f3 = setInterimTranscript (\<lambda>_. []) f2
      in set_latestInterimRef [] f3)"

definition onerror ::
  "SpeechRecognitionErrorEvent \<Rightarrow> SpeechRecognitionHook fiber \<Rightarrow> SpeechRecognitionHook fiber" where
  "onerror ev f =
     (let f1 = setIsListening (\<lambda>_. False) f;
          f2 = setError (\<lambda>_. Some \<lparr>err = event_error ev,
                 message = (case event_message ev of
                              None \<Rightarrow> lit ''An unknown speech recognition error occurred.''
                            | Some m \<Rightarrow>
                                if m = [] then lit ''An unknown speech recognition error occurred.''
                                else m)\<rparr>) f1;
          f3 = setFinalTranscript (\<lambda>_. []) f2;
          f4 = setInterimTranscript (\<lambda>_. []) f3
      in set_latestInterimRef [] f4)"

text \<open>
  The effect of lines 121 to 198, for a platform that has the recognition interface or
  has not. The settings it copies into the new object are not read again by the hook and
  are left out.
\<close>

definition useEffect :: "bool \<Rightarrow> SpeechRecognitionHook fiber \<Rightarrow> SpeechRecognitionHook fiber" where
  "useEffect supported f =
     (if \<not> supported
      then setError (\<lambda>_. Some BrowserNotSupported) f
      else set_recognitionRef
             (Some \<lparr>started = False, stopRequested = False, startFailure = []\<rparr>) f)"

definition initial :: SpeechRecognitionHook where
  "initial = \<lparr>finalTranscript = [], interimTranscript = [], isListening = False,
              error = None, recognitionRef = None, latestInterimRef = []\<rparr>"

definition mount :: "bool \<Rightarrow> SpeechRecognitionHook" where
  "mount supported = event (useEffect supported) initial"

definition startListening :: "SpeechRecognitionHook fiber \<Rightarrow> SpeechRecognitionHook fiber" where
  "startListening f =
     (case recognitionRef (memoizedState f) of
        Some r \<Rightarrow>
          if \<not> isListening (memoizedState f) then
            (let f1 = setFinalTranscript (\<lambda>_. []) f;
                 f2 = setInterimTranscript (\<lambda>_. []) f1;
                 f3 = set_latestInterimRef [] f2;
                 f4 = setError (\<lambda>_. None) f3
             in case start r of
                  Inr r' \<Rightarrow> set_recognitionRef (Some r') f4
                | Inl errorMessage \<Rightarrow>
                    setError (\<lambda>_. Some \<lparr>err = lit ''RecognitionInProgress'',
                      message = errorMessage\<rparr>) f4)
          else setError (\<lambda>_. Some AlreadyListening) f
      | None \<Rightarrow>
          if isListening (memoizedState f)
          then setError (\<lambda>_. Some AlreadyListening) f
          else setError (\<lambda>_. Some NotInitialized) f)"

definition stopListening :: "SpeechRecognitionHook fiber \<Rightarrow> SpeechRecognitionHook fiber" where
  "stopListening f =
     (case recognitionRef (memoizedState f) of
        Some r \<Rightarrow>
          if isListening (memoizedState f) then set_recognitionRef (Some (stop r)) f else f
      | None \<Rightarrow> f)"

text \<open>The transcript the hook returns (line 240).\<close>

definition transcript_of :: "SpeechRecognitionHook \<Rightarrow> jsstring" where
  "transcript_of s = trim (finalTranscript s @ lit '' '' @ interimTranscript s)"

text \<open>
  The hook as the page sees it: the state after an event has been handled and the
  component rendered again. A batch whose handler throws changes nothing.
\<close>

definition onBatch :: "SpeechRecognitionEvent \<Rightarrow> SpeechRecognitionHook \<Rightarrow> SpeechRecognitionHook" where
  "onBatch ev s = (case event_try (onresult ev) s of Inl _ \<Rightarrow> s | Inr s' \<Rightarrow> s')"


datatype request = Start | Stop

fun handle :: "request \<Rightarrow> SpeechRecognitionHook \<Rightarrow> SpeechRecognitionHook" where
  "handle Start s = event startListening s"
| "handle Stop s = event stopListening s"

definition requests :: "request list \<Rightarrow> SpeechRecognitionHook \<Rightarrow> SpeechRecognitionHook" where
  "requests rs s = foldl (\<lambda>s r. handle r s) s rs"

section \<open>The synthesis hook: \<^verbatim>\<open>useSpeechSynthesis\<close>\<close>

record SpeechSynthesisVoice =
  voice_name :: jsstring
  voice_lang :: jsstring
  voice_default :: bool

record SpeechSynthesisSettings =
  lang :: jsstring
  rate :: number
  pitch :: number
  volume :: number
  voiceName :: "jsstring option"

text \<open>
  \<^verbatim>\<open>Partial<SpeechSynthesisSettings>\<close>: for each key, \<open>None\<close> when the object does not
  have it. \<^verbatim>\<open>voiceName\<close> can be present and \<^verbatim>\<open>undefined\<close> (the page clears the voice
  that way). \<open>spread\<close> is \<^verbatim>\<open>{ ...prev, ...newSettings }\<close>.
\<close>

record PartialSpeechSynthesisSettings =
  new_lang :: "jsstring option"
  new_rate :: "number option"
  new_pitch :: "number option"
  new_volume :: "number option"
  new_voiceName :: "jsstring option option"

definition spread ::
  "SpeechSynthesisSettings \<Rightarrow> PartialSpeechSynthesisSettings \<Rightarrow> SpeechSynthesisSettings" where
  "spread prev newSettings =
     \<lparr>lang = (case new_lang newSettings of None \<Rightarrow> lang prev | Some v \<Rightarrow> v),
      rate = (case new_rate newSettings of None \<Rightarrow> rate prev | Some v \<Rightarrow> v),
      pitch = (case new_pitch newSettings of None \<Rightarrow> pitch prev | Some v \<Rightarrow> v),
      volume = (case new_volume newSettings of None \<Rightarrow> volume prev | Some v \<Rightarrow> v),
      voiceName = (case new_voiceName newSettings of None \<Rightarrow> voiceName prev | Some v \<Rightarrow> v)\<rparr>"

text \<open>
  An utterance is the platform's object: the constructor sets the text and the defaults,
  and its \<^verbatim>\<open>rate\<close>, \<^verbatim>\<open>pitch\<close> and \<^verbatim>\<open>volume\<close> are attributes of the interface type
  \<^verbatim>\<open>float\<close>, which accept no NaN: assigning one throws a TypeError.
\<close>

record SpeechSynthesisUtterance =
  utterance_text :: jsstring
  utterance_lang :: jsstring
  utterance_rate :: number
  utterance_pitch :: number
  utterance_volume :: number
  utterance_voice :: "SpeechSynthesisVoice option"

definition new_SpeechSynthesisUtterance :: "jsstring \<Rightarrow> SpeechSynthesisUtterance" where
  "new_SpeechSynthesisUtterance t =
     \<lparr>utterance_text = t, utterance_lang = [], utterance_rate = Finite 1,
      utterance_pitch = Finite 1, utterance_volume = Finite 1, utterance_voice = None\<rparr>"

record SpeechSynthesisError =
  synthesis_err :: jsstring
  utterance :: SpeechSynthesisUtterance
  synthesis_message :: jsstring

text \<open>The state cells of the hook (lines 264 to 271); \<open>speechSynthesis\<close> is the platform's
  queue, the utterances handed to \<^verbatim>\<open>window.speechSynthesis.speak\<close>.\<close>

record SpeechSynthesisHook =
  settings :: SpeechSynthesisSettings
  synthesisError :: "SpeechSynthesisError option"
  isSpeaking :: bool
  availableVoices :: "SpeechSynthesisVoice list"
  speechSynthesis :: "SpeechSynthesisUtterance list"

text \<open>The settings written are always a fresh object (a spread), identical to no other.\<close>

definition setSettings ::
  "(SpeechSynthesisHook \<Rightarrow> SpeechSynthesisSettings) \<Rightarrow> SpeechSynthesisHook fiber \<Rightarrow> SpeechSynthesisHook fiber" where
  "setSettings = dispatchSetState settings (\<lambda>v s. s\<lparr>settings := v\<rparr>) (\<lambda>a b. False)"

definition setSynthesisError ::
  "(SpeechSynthesisHook \<Rightarrow> SpeechSynthesisError option) \<Rightarrow> SpeechSynthesisHook fiber \<Rightarrow> SpeechSynthesisHook fiber" where
  "setSynthesisError =
     dispatchSetState synthesisError (\<lambda>v s. s\<lparr>synthesisError := v\<rparr>) (\<lambda>a b. a = None \<and> b = None)"

definition setIsSpeaking ::
  "(SpeechSynthesisHook \<Rightarrow> bool) \<Rightarrow> SpeechSynthesisHook fiber \<Rightarrow> SpeechSynthesisHook fiber" where
  "setIsSpeaking = dispatchSetState isSpeaking (\<lambda>v s. s\<lparr>isSpeaking := v\<rparr>) (=)"

definition speechSynthesis_speak ::
  "SpeechSynthesisUtterance \<Rightarrow> SpeechSynthesisHook fiber \<Rightarrow> SpeechSynthesisHook fiber" where
  "speechSynthesis_speak u f =
     f\<lparr>memoizedState := (memoizedState f)\<lparr>speechSynthesis := speechSynthesis (memoizedState f) @ [u]\<rparr>\<rparr>"

text \<open>
  \<^verbatim>\<open>speak\<close> (lines 316 to 357), on a platform that has \<^verbatim>\<open>speechSynthesis\<close> or has not.
  \<open>customSettings\<close> is \<open>None\<close> when the caller passes none. \<open>finalSettings_of\<close> is
  line 326, \<open>select_voice\<close> the choice of lines 334 to 350: the voice with the name and
  the language asked for, or without a name the default voice of the language.
\<close>

definition finalSettings_of ::
  "SpeechSynthesisHook \<Rightarrow> PartialSpeechSynthesisSettings option \<Rightarrow> SpeechSynthesisSettings" where
  "finalSettings_of s customSettings =
     (case customSettings of None \<Rightarrow> settings s | Some c \<Rightarrow> spread (settings s) c)"

definition select_voice ::
  "SpeechSynthesisSettings \<Rightarrow> SpeechSynthesisVoice list \<Rightarrow> SpeechSynthesisVoice option" where
  "select_voice finalSettings voices =
     (case voiceName finalSettings of
        None \<Rightarrow>
          find (\<lambda>voice. voice_lang voice = lang finalSettings \<and> voice_default voice) voices
      | Some n \<Rightarrow>
          if n = [] then
            find (\<lambda>voice. voice_lang voice = lang finalSettings \<and> voice_default voice) voices
          else
            find (\<lambda>voice. voice_name voice = n \<and> voice_lang voice = lang finalSettings) voices)"

definition speak ::
  "bool \<Rightarrow> jsstring \<Rightarrow> PartialSpeechSynthesisSettings option \<Rightarrow> SpeechSynthesisHook fiber
     \<Rightarrow> exception + SpeechSynthesisHook fiber" where
  "speak supported txt customSettings f =
     (if \<not> supported \<or> txt = [] then
        Inr (setSynthesisError (\<lambda>_. Some \<lparr>synthesis_err = lit ''UnsupportedOrNoText'',
               utterance = new_SpeechSynthesisUtterance [],
               synthesis_message = lit ''Speech Synthesis is not supported or no text provided.''\<rparr>) f)
      else
        (let finalSettings = finalSettings_of (memoizedState f) customSettings;
             r = Math_max (Finite (1 / 10)) (Math_min (Finite 10) (rate finalSettings));
             p = Math_max (Finite 0) (Math_min (Finite 2) (pitch finalSettings));
             v = Math_max (Finite 0) (Math_min (Finite 1) (volume finalSettings))
         in if r = NaN \<or> p = NaN \<or> v = NaN then Inl TypeError
            else
              (let u = (new_SpeechSynthesisUtterance txt)
                         \<lparr>utterance_lang := lang finalSettings, utterance_rate := r,
                          utterance_pitch := p, utterance_volume := v\<rparr>;
                   u' = (case select_voice finalSettings (availableVoices (memoizedState f)) of
                           None \<Rightarrow> u
                         | Some voice \<Rightarrow> u\<lparr>utterance_voice := Some voice\<rparr>);
                   f1 = setIsSpeaking (\<lambda>_. True) f;
                   f2 = setSynthesisError (\<lambda>_. None) f1
               in Inr (speechSynthesis_speak u' f2))))"

text \<open>\<^verbatim>\<open>updateSettings\<close> of the synthesis hook (lines 369 to 371).\<close>

definition updateSettings ::
  "PartialSpeechSynthesisSettings \<Rightarrow> SpeechSynthesisHook fiber \<Rightarrow> SpeechSynthesisHook fiber" where
  "updateSettings newSettings = setSettings (\<lambda>s. spread (settings s) newSettings)"

section \<open>Vocabulary of the properties\<close>

text \<open>
  The results a batch covers, the transcript of alternative 0, and the two strings a
  batch contributes: the transcripts of its interim results, and the transcripts of its
  final results, each followed by a space.
\<close>

definition batch_results :: "SpeechRecognitionEvent \<Rightarrow> SpeechRecognitionResult list" where
  "batch_results ev = drop (resultIndex ev) (results ev)"

definition alt0_transcript :: "SpeechRecognitionResult \<Rightarrow> jsstring" where
  "alt0_transcript r = (case alternatives r of [] \<Rightarrow> [] | a # _ \<Rightarrow> transcript a)"

definition interim_parts :: "SpeechRecognitionEvent \<Rightarrow> jsstring" where
  "interim_parts ev =
     concat (map alt0_transcript (filter (\<lambda>r. \<not> isFinal r) (batch_results ev)))"

definition final_parts :: "SpeechRecognitionEvent \<Rightarrow> jsstring" where
  "final_parts ev =
     concat (map (\<lambda>r. alt0_transcript r @ lit '' '') (filter isFinal (batch_results ev)))"

definition interim_result :: "string \<Rightarrow> SpeechRecognitionResult" where
  "interim_result t = \<lparr>isFinal = False, alternatives = [\<lparr>transcript = lit t\<rparr>]\<rparr>"

definition final_result :: "string \<Rightarrow> SpeechRecognitionResult" where
  "final_result t = \<lparr>isFinal = True, alternatives = [\<lparr>transcript = lit t\<rparr>]\<rparr>"

text \<open>The two batches of the transcript example; the platform's own second event holds
  all the results so far and points at the new one.\<close>

definition batch1 :: SpeechRecognitionEvent where
  "batch1 = \<lparr>resultIndex = 0, results = [final_result ''hello'']\<rparr>"

definition batch2 :: SpeechRecognitionEvent where
  "batch2 = \<lparr>resultIndex = 0, results = [interim_result ''how are you'']\<rparr>"

definition batch2_cumulative :: SpeechRecognitionEvent where
  "batch2_cumulative = \<lparr>resultIndex = 1, results = results batch1 @ results batch2\<rparr>"

text \<open>A session with one interim result and no final one: the hook is mounted on a
  platform with recognition, the user starts, the platform reports the start and then
  the interim result.\<close>

definition testing_batch :: SpeechRecognitionEvent where
  "testing_batch = \<lparr>resultIndex = 0, results = [interim_result ''testing'']\<rparr>"

definition testing_session :: SpeechRecognitionHook where
  "testing_session = onBatch testing_batch (event onstart (event startListening (mount True)))"

text \<open>The synthesis hook with its default settings (lines 256 to 261), and settings
  objects of the examples.\<close>

definition initial_synthesis :: SpeechSynthesisHook where
  "initial_synthesis =
     \<lparr>settings = \<lparr>lang = lit ''en-US'', rate = Finite (8 / 10), pitch = Finite 1,
                  volume = Finite 1, voiceName = None\<rparr>,
      synthesisError = None, isSpeaking = False, availableVoices = [], speechSynthesis = []\<rparr>"

definition only_rate :: "number \<Rightarrow> PartialSpeechSynthesisSettings" where
  "only_rate r = \<lparr>new_lang = None, new_rate = Some r, new_pitch = None,
                  new_volume = None, new_voiceName = None\<rparr>"

definition out_of_range :: PartialSpeechSynthesisSettings where
  "out_of_range = \<lparr>new_lang = None, new_rate = Some (Finite 20), new_pitch = Some (Finite (- 3)),
                   new_volume = Some Infinity, new_voiceName = None\<rparr>"

definition in_range :: "real \<Rightarrow> real \<Rightarrow> number \<Rightarrow> bool" where
  "in_range lo hi x = (num_le (Finite lo) x \<and> num_le x (Finite hi))"

text \<open>What \<^verbatim>\<open>speak\<close> assigns to the utterance (lines 328 to 350).\<close>

definition utterance_of ::
  "jsstring \<Rightarrow> SpeechSynthesisSettings \<Rightarrow> SpeechSynthesisVoice list \<Rightarrow> SpeechSynthesisUtterance" where
  "utterance_of txt finalSettings voices =
     \<lparr>utterance_text = txt, utterance_lang = lang finalSettings,
      utterance_rate = Math_max (Finite (1 / 10)) (Math_min (Finite 10) (rate finalSettings)),
      utterance_pitch = Math_max (Finite 0) (Math_min (Finite 2) (pitch finalSettings)),
      utterance_volume = Math_max (Finite 0) (Math_min (Finite 1) (volume finalSettings)),
      utterance_voice = select_voice finalSettings voices\<rparr>"

section \<open>The state after each event\<close>

lemmas react_defs = event_def event_try_def render_def rendered_def dispatchSetState_def

lemmas recognition_setters = setFinalTranscript_def setInterimTranscript_def setIsListening_def
  setError_def set_latestInterimRef_def set_recognitionRef_def

lemmas synthesis_setters = setSettings_def setSynthesisError_def setIsSpeaking_def
  speechSynthesis_speak_def

lemmas eval_defs = lit_def trim_def isWhiteSpace_def interim_parts_def final_parts_def
  batch_results_def alt0_transcript_def interim_result_def final_result_def

lemma onresult_loop_parts:
  "list_all (\<lambda>r. alternatives r \<noteq> []) rs \<Longrightarrow>
   onresult_loop rs ci cf =
     Inr (ci @ concat (map alt0_transcript (filter (\<lambda>r. \<not> isFinal r) rs)),
          cf @ concat (map (\<lambda>r. alt0_transcript r @ lit '' '') (filter isFinal rs)))"
  by (induction rs arbitrary: ci cf) (auto simp: alt0_transcript_def split: list.splits)

lemma onresult_loop_throws:
  "\<not> list_all (\<lambda>r. alternatives r \<noteq> []) rs \<Longrightarrow> onresult_loop rs ci cf = Inl TypeError"
  by (induction rs arbitrary: ci cf) (auto split: list.splits)

lemma event_try_onresult:
  "onresult_loop (drop (resultIndex ev) (results ev)) [] [] = Inr (ci, cf) \<Longrightarrow>
   event_try (onresult ev) s =
     Inr (s\<lparr>finalTranscript := trim (finalTranscript s @ cf), interimTranscript := trim ci,
            error := None, latestInterimRef := trim ci\<rparr>)"
  by (simp add: onresult_def react_defs recognition_setters Let_def)

lemma onBatch_state:
  "list_all (\<lambda>r. alternatives r \<noteq> []) (batch_results ev) \<Longrightarrow>
   onBatch ev s = s\<lparr>finalTranscript := trim (finalTranscript s @ final_parts ev),
                     interimTranscript := trim (interim_parts ev), error := None,
                     latestInterimRef := trim (interim_parts ev)\<rparr>"
  by (simp add: onBatch_def batch_results_def interim_parts_def final_parts_def
      event_try_onresult [OF onresult_loop_parts])

lemma onBatch_throws:
  "\<not> list_all (\<lambda>r. alternatives r \<noteq> []) (batch_results ev) \<Longrightarrow> onBatch ev s = s"
  by (simp add: onBatch_def batch_results_def event_try_def onresult_def onresult_loop_throws)

lemma onstart_state:
  "event onstart s =
     s\<lparr>finalTranscript := [], interimTranscript := [], isListening := True,
       error := None, latestInterimRef := []\<rparr>"
  by (simp add: onstart_def react_defs recognition_setters Let_def)

text \<open>
  \<^verbatim>\<open>onend\<close> while listening: \<^verbatim>\<open>setIsListening(false)\<close> schedules an update, so the
  updater of the final transcript is queued and runs at the render, after the handler
  has emptied the ref. While not listening nothing is scheduled before it, and it runs
  at once, on the ref as it still is.
\<close>

lemma onend_listening:
  "isListening s \<Longrightarrow> event onend s =
     s\<lparr>finalTranscript := (if latestInterimRef s \<noteq> [] then trim (finalTranscript s @ lit '' '')
                           else finalTranscript s),
       interimTranscript := [], isListening := False, latestInterimRef := []\<rparr>"
  by (simp add: onend_def react_defs recognition_setters Let_def)

lemma onend_not_listening:
  "\<not> isListening s \<Longrightarrow> event onend s =
     s\<lparr>finalTranscript := (if latestInterimRef s \<noteq> []
                           then trim (finalTranscript s @ lit '' '' @ latestInterimRef s)
                           else finalTranscript s),
       interimTranscript := [], latestInterimRef := []\<rparr>"
  by (simp add: onend_def react_defs recognition_setters Let_def)

lemma onerror_state:
  "event (onerror ev) s =
     s\<lparr>finalTranscript := [], interimTranscript := [], isListening := False,
       error := Some \<lparr>err = event_error ev,
                 message = (case event_message ev of
                              None \<Rightarrow> lit ''An unknown speech recognition error occurred.''
                            | Some m \<Rightarrow>
                                if m = [] then lit ''An unknown speech recognition error occurred.''
                                else m)\<rparr>,
       latestInterimRef := []\<rparr>"
  by (simp add: onerror_def react_defs recognition_setters Let_def)

lemma mount_supported:
  "mount True =
     initial\<lparr>recognitionRef := Some \<lparr>started = False, stopRequested = False, startFailure = []\<rparr>\<rparr>"
  by (simp add: mount_def useEffect_def react_defs recognition_setters)

lemma mount_unsupported: "mount False = initial\<lparr>error := Some BrowserNotSupported\<rparr>"
  by (simp add: mount_def useEffect_def react_defs recognition_setters)

lemma startListening_listening:
  "isListening s \<Longrightarrow> event startListening s = s\<lparr>error := Some AlreadyListening\<rparr>"
  by (simp add: startListening_def react_defs recognition_setters split: option.splits)

lemma startListening_uninitialized:
  "\<not> isListening s \<Longrightarrow> recognitionRef s = None \<Longrightarrow>
   event startListening s = s\<lparr>error := Some NotInitialized\<rparr>"
  by (simp add: startListening_def react_defs recognition_setters)

lemma startListening_starts:
  "\<not> isListening s \<Longrightarrow> recognitionRef s = Some r \<Longrightarrow> \<not> started r \<Longrightarrow>
   event startListening s =
     s\<lparr>finalTranscript := [], interimTranscript := [], error := None,
       recognitionRef := Some (r\<lparr>started := True\<rparr>), latestInterimRef := []\<rparr>"
  by (simp add: startListening_def start_def react_defs recognition_setters Let_def)

lemma startListening_in_progress:
  "\<not> isListening s \<Longrightarrow> recognitionRef s = Some r \<Longrightarrow> started r \<Longrightarrow>
   event startListening s =
     s\<lparr>finalTranscript := [], interimTranscript := [],
       error := Some \<lparr>err = lit ''RecognitionInProgress'', message = startFailure r\<rparr>,
       latestInterimRef := []\<rparr>"
  by (simp add: startListening_def start_def react_defs recognition_setters Let_def)

lemma stopListening_state:
  "event stopListening s =
     (case recognitionRef s of
        Some r \<Rightarrow> if isListening s then s\<lparr>recognitionRef := Some (stop r)\<rparr> else s
      | None \<Rightarrow> s)"
  by (simp add: stopListening_def react_defs recognition_setters split: option.splits)

lemma stopListening_listening:
  "isListening s \<Longrightarrow> recognitionRef s = Some r \<Longrightarrow> started r \<Longrightarrow>
   event stopListening s = s\<lparr>recognitionRef := Some (r\<lparr>stopRequested := True\<rparr>)\<rparr>"
  by (simp add: stopListening_state stop_def)

section \<open>Batches of results\<close>

text \<open>
  C1, as the code has it. Every batch whose results from the offset on all have an
  alternative 0 leaves the final buffer equal to the trimmed concatenation of the
  previous final buffer and, for each final result from the offset on, its alternative-0
  transcript followed by a space; and it leaves the interim buffer (state cell and ref)
  equal to the trimmed concatenation of the alternative-0 transcripts of the non-final
  results of this batch alone, whatever the interim buffer held before.
\<close>

theorem onBatch_buffers:
  assumes "\<forall>r \<in> set (drop (resultIndex ev) (results ev)). alternatives r \<noteq> []"
  shows "finalTranscript (onBatch ev s) = trim (finalTranscript s @ final_parts ev) \<and>
         interimTranscript (onBatch ev s) = trim (interim_parts ev) \<and>
         latestInterimRef (onBatch ev s) = trim (interim_parts ev)"
proof -
  from assms have "list_all (\<lambda>r. alternatives r \<noteq> []) (batch_results ev)"
    by (simp add: batch_results_def list_all_iff)
  then show ?thesis
    by (simp add: onBatch_state)
qed

theorem onBatch_buffers_witness:
  "(let ev = \<lparr>resultIndex = 1,
              results = [final_result ''old'', final_result ''hello'', interim_result '' how '',
                         final_result ''there'', interim_result ''are you'']\<rparr>;
        s = initial\<lparr>finalTranscript := lit ''so'', interimTranscript := lit ''stale'',
              latestInterimRef := lit ''stale''\<rparr>
    in finalTranscript (onBatch ev s) = lit ''sohello there'' \<and>
       interimTranscript (onBatch ev s) = lit ''how are you'' \<and>
       latestInterimRef (onBatch ev s) = lit ''how are you'')"
  using onBatch_buffers [of "\<lparr>resultIndex = 1,
              results = [final_result ''old'', final_result ''hello'', interim_result '' how '',
                         final_result ''there'', interim_result ''are you'']\<rparr>"
       "initial\<lparr>finalTranscript := lit ''so'', interimTranscript := lit ''stale'',
              latestInterimRef := lit ''stale''\<rparr>"]
  by (simp add: eval_defs initial_def)

text \<open>
  C1 as stated fails: the buffers are trimmed. An interim transcript that starts with a
  space does not reach the interim buffer as it is, and the separator after a final
  transcript does not stay in the final buffer.
\<close>

theorem onBatch_interim_not_exact:
  "interimTranscript (onBatch \<lparr>resultIndex = 0, results = [interim_result '' how are you'']\<rparr> initial)
     \<noteq> interim_parts \<lparr>resultIndex = 0, results = [interim_result '' how are you'']\<rparr> \<and>
   finalTranscript (onBatch \<lparr>resultIndex = 0, results = [final_result ''hello'']\<rparr> initial)
     \<noteq> finalTranscript initial @ final_parts \<lparr>resultIndex = 0, results = [final_result ''hello'']\<rparr>"
  by (simp add: onBatch_state eval_defs initial_def)

text \<open>
  C2. The transcript the hook returns is the trimmed concatenation of the final buffer,
  a space and the interim buffer. After a session start, the batch with the final result
  "hello" and then the batch with the interim result "how are you" (given alone, or as
  the platform gives it, after the first result and with offset 1), the transcript is
  "hello how are you".
\<close>

theorem transcript_hello_how_are_you:
  "transcript_of s = trim (finalTranscript s @ lit '' '' @ interimTranscript s) \<and>
   transcript_of (onBatch batch2 (onBatch batch1 (event onstart s))) = lit ''hello how are you'' \<and>
   transcript_of (onBatch batch2_cumulative (onBatch batch1 (event onstart s))) =
     lit ''hello how are you''"
  by (simp add: transcript_of_def onBatch_state onstart_state batch1_def batch2_def
      batch2_cumulative_def eval_defs)





section \<open>The end of a session and errors\<close>

text \<open>
  C3, on the code. The session \<open>testing_session\<close> is listening, has no final result and
  holds "testing" in the interim buffer (state cell and ref). When it ends, the final
  buffer is still empty and the interim buffer is emptied: "testing" is lost, and the
  transcript returned is empty. Line 175 queues an updater that reads
  \<^verbatim>\<open>latestInterimRef.current\<close> when React applies it, line 178 empties the ref before
  that, and \<^verbatim>\<open>setIsListening(false)\<close> on line 173 has scheduled an update, so the
  updater is not run early.
\<close>

theorem onend_loses_interim:
  "isListening testing_session \<and>
   finalTranscript testing_session = [] \<and>
   interimTranscript testing_session = lit ''testing'' \<and>
   latestInterimRef testing_session = lit ''testing'' \<and>
   finalTranscript (event onend testing_session) = [] \<and>
   interimTranscript (event onend testing_session) = [] \<and>
   transcript_of (event onend testing_session) = []"
proof -
  have s: "testing_session =
      initial\<lparr>interimTranscript := lit ''testing'', isListening := True,
        recognitionRef := Some \<lparr>started = True, stopRequested = False, startFailure = []\<rparr>,
        latestInterimRef := lit ''testing''\<rparr>"
    by (simp add: testing_session_def testing_batch_def mount_supported startListening_starts
        onstart_state onBatch_state initial_def eval_defs)
  show ?thesis
    by (simp add: s onend_listening transcript_of_def initial_def eval_defs)
qed

text \<open>
  C5. After \<^verbatim>\<open>onerror\<close>, in any state, the final and the interim buffer (state cell and
  ref) are empty, the hook is not listening, and the stored error is the descriptor made
  of the event's code and of its message, or of the default message when the event has
  none or an empty one.
\<close>

theorem onerror_clears_and_records:
  "finalTranscript (event (onerror ev) s) = [] \<and>
   interimTranscript (event (onerror ev) s) = [] \<and>
   latestInterimRef (event (onerror ev) s) = [] \<and>
   isListening (event (onerror ev) s) = False \<and>
   error (event (onerror ev) s) =
     Some \<lparr>err = event_error ev,
           message = (case event_message ev of
                        None \<Rightarrow> lit ''An unknown speech recognition error occurred.''
                      | Some m \<Rightarrow>
                          if m = [] then lit ''An unknown speech recognition error occurred.''
                          else m)\<rparr>"
  by (simp add: onerror_state)

section \<open>Start and stop requests\<close>

text \<open>
  C4. \<^verbatim>\<open>startListening\<close> in a state that is listening stores the error descriptor
  AlreadyListening ("Recognition is already active.") and changes nothing else: the
  final buffer, the interim buffer, the ref and the recognition object stay as they are.
\<close>

theorem startListening_already_listening:
  "isListening s \<Longrightarrow> event startListening s = s\<lparr>error := Some AlreadyListening\<rparr>"
  by (rule startListening_listening)

theorem startListening_already_listening_witness:
  "(let s = \<lparr>finalTranscript = lit ''hello'', interimTranscript = lit ''wor'', isListening = True,
             error = None,
             recognitionRef = Some \<lparr>started = True, stopRequested = False, startFailure = []\<rparr>,
             latestInterimRef = lit ''wor''\<rparr>
    in isListening s \<and>
       finalTranscript (event startListening s) = lit ''hello'' \<and>
       interimTranscript (event startListening s) = lit ''wor'' \<and>
       error (event startListening s) =
         Some \<lparr>err = lit ''AlreadyListening'', message = lit ''Recognition is already active.''\<rparr>)"
  using startListening_already_listening
    [of "\<lparr>finalTranscript = lit ''hello'', interimTranscript = lit ''wor'', isListening = True,
             error = None,
             recognitionRef = Some \<lparr>started = True, stopRequested = False, startFailure = []\<rparr>,
             latestInterimRef = lit ''wor''\<rparr>"]
  by (simp add: AlreadyListening_def)

text \<open>
  C10. \<^verbatim>\<open>stopListening\<close> in a state that is not listening changes nothing: buffers,
  listening flag, stored error, ref and recognition object are as before, and
  \<^verbatim>\<open>stop()\<close> is not called even on an object that has been started.
\<close>

theorem stopListening_not_listening:
  "\<not> isListening s \<Longrightarrow> event stopListening s = s"
  by (simp add: stopListening_state split: option.splits)

theorem stopListening_not_listening_witness:
  "(let s = \<lparr>finalTranscript = lit ''hello'', interimTranscript = lit ''wor'', isListening = False,
             error = Some \<lparr>err = lit ''network'', message = lit ''lost''\<rparr>,
             recognitionRef = Some \<lparr>started = True, stopRequested = False, startFailure = []\<rparr>,
             latestInterimRef = lit ''wor''\<rparr>
    in \<not> isListening s \<and> event stopListening s = s)"
  using stopListening_not_listening
    [of "\<lparr>finalTranscript = lit ''hello'', interimTranscript = lit ''wor'', isListening = False,
             error = Some \<lparr>err = lit ''network'', message = lit ''lost''\<rparr>,
             recognitionRef = Some \<lparr>started = True, stopRequested = False, startFailure = []\<rparr>,
             latestInterimRef = lit ''wor''\<rparr>"]
  by simp

lemma requests_snoc: "requests (rs @ [r]) s = handle r (requests rs s)"
  by (simp add: requests_def)

lemma requests_unsupported:
  "requests rs (mount False) =
     initial\<lparr>error := Some (if Start \<in> set rs then NotInitialized else BrowserNotSupported)\<rparr>"
proof (induction rs rule: rev_induct)
  case Nil
  show ?case
    by (simp add: requests_def mount_unsupported)
next
  case (snoc r rs)
  show ?case
  proof (cases r)
    case Start
    then show ?thesis
      by (simp add: requests_snoc snoc.IH startListening_uninitialized initial_def)
  next
    case Stop
    then show ?thesis
      by (simp add: requests_snoc snoc.IH stopListening_state initial_def)
  qed
qed

text \<open>
  C7. On a platform without recognition the hook stores the descriptor
  BrowserNotSupported when it is mounted and creates no recognition object. After any
  sequence of start and stop requests it is still not listening and still has no
  recognition object, and an error is stored: BrowserNotSupported as long as no start
  was requested, NotInitialized ("Browser might not support it.") after one.
\<close>

theorem unsupported_stays_idle:
  "error (mount False) = Some BrowserNotSupported \<and>
   recognitionRef (mount False) = None \<and>
   isListening (requests rs (mount False)) = False \<and>
   recognitionRef (requests rs (mount False)) = None \<and>
   error (requests rs (mount False)) =
     Some (if Start \<in> set rs then NotInitialized else BrowserNotSupported)"
  unfolding requests_unsupported
  by (simp add: mount_unsupported initial_def)

section \<open>Synthesis settings and utterances\<close>

lemma updateSettings_state:
  "event (updateSettings newSettings) s = s\<lparr>settings := spread (settings s) newSettings\<rparr>"
  by (simp add: updateSettings_def react_defs synthesis_setters)

lemma spread_idem: "spread (spread prev newSettings) newSettings = spread prev newSettings"
  by (simp add: spread_def split: option.splits)

text \<open>
  C8. Updating the synthesis settings twice with the same partial settings gives the
  state that updating once gives; so with \<^verbatim>\<open>{rate: 0.5}\<close>, which sets the rate to 0.5
  and keeps the other settings.
\<close>

theorem updateSettings_idempotent:
  "event (updateSettings newSettings) (event (updateSettings newSettings) s) =
     event (updateSettings newSettings) s \<and>
   event (updateSettings (only_rate (Finite (1 / 2))))
       (event (updateSettings (only_rate (Finite (1 / 2)))) s) =
     event (updateSettings (only_rate (Finite (1 / 2)))) s \<and>
   settings (event (updateSettings (only_rate (Finite (1 / 2)))) s) =
     (settings s)\<lparr>rate := Finite (1 / 2)\<rparr>"
  by (simp add: updateSettings_state spread_idem) (simp add: spread_def only_rate_def)

lemma clamp_in_range:
  "x \<noteq> NaN \<Longrightarrow> lo \<le> hi \<Longrightarrow> in_range lo hi (Math_max (Finite lo) (Math_min (Finite hi) x))"
  by (cases x) (auto simp: in_range_def Math_max_def Math_min_def)

lemma clamp_not_NaN:
  "x \<noteq> NaN \<Longrightarrow> Math_max (Finite lo) (Math_min (Finite hi) x) \<noteq> NaN"
  by (cases x) (auto simp: Math_max_def Math_min_def)

lemma speak_handler:
  assumes "supported" and "txt \<noteq> []"
    and "rate (finalSettings_of (memoizedState f) customSettings) \<noteq> NaN"
    and "pitch (finalSettings_of (memoizedState f) customSettings) \<noteq> NaN"
    and "volume (finalSettings_of (memoizedState f) customSettings) \<noteq> NaN"
  shows "speak supported txt customSettings f =
           Inr (speechSynthesis_speak
                  (utterance_of txt (finalSettings_of (memoizedState f) customSettings)
                     (availableVoices (memoizedState f)))
                  (setSynthesisError (\<lambda>_. None) (setIsSpeaking (\<lambda>_. True) f)))"
  using assms
  by (simp add: speak_def Let_def clamp_not_NaN utterance_of_def new_SpeechSynthesisUtterance_def
      split: option.splits)

lemma speak_state:
  assumes "supported" and "txt \<noteq> []"
    and "rate (finalSettings_of s customSettings) \<noteq> NaN"
    and "pitch (finalSettings_of s customSettings) \<noteq> NaN"
    and "volume (finalSettings_of s customSettings) \<noteq> NaN"
  shows "event_try (speak supported txt customSettings) s =
           Inr (s\<lparr>synthesisError := None, isSpeaking := True,
                  speechSynthesis := speechSynthesis s @
                    [utterance_of txt (finalSettings_of s customSettings) (availableVoices s)]\<rparr>)"
proof -
  have "speak supported txt customSettings (rendered s) =
           Inr (speechSynthesis_speak
                  (utterance_of txt (finalSettings_of s customSettings) (availableVoices s))
                  (setSynthesisError (\<lambda>_. None) (setIsSpeaking (\<lambda>_. True) (rendered s))))"
    using speak_handler [of supported "txt" "rendered s" customSettings] assms
    by (simp add: rendered_def)
  then show ?thesis
    by (simp add: react_defs synthesis_setters)
qed

text \<open>
  C9, as the code has it. On a platform with synthesis, for a text that is not empty and
  for settings (the hook's, overridden by the caller's) whose rate, pitch and volume are
  not NaN, \<^verbatim>\<open>speak\<close> hands the platform one utterance with that text, whose rate is
  \<^verbatim>\<open>max(0.1, min(10, rate))\<close> and lies in [0.1, 10], whose pitch is
  \<^verbatim>\<open>max(0, min(2, pitch))\<close> and lies in [0, 2], and whose volume is
  \<^verbatim>\<open>max(0, min(1, volume))\<close> and lies in [0, 1]; it stores no error and the hook is
  speaking.
\<close>

theorem speak_clamps:
  assumes "supported" and "txt \<noteq> []"
    and "rate (finalSettings_of s customSettings) \<noteq> NaN"
    and "pitch (finalSettings_of s customSettings) \<noteq> NaN"
    and "volume (finalSettings_of s customSettings) \<noteq> NaN"
  shows "\<exists>u. event_try (speak supported txt customSettings) s =
           Inr (s\<lparr>synthesisError := None, isSpeaking := True,
                  speechSynthesis := speechSynthesis s @ [u]\<rparr>) \<and>
         utterance_text u = txt \<and>
         utterance_rate u =
           Math_max (Finite (1 / 10)) (Math_min (Finite 10) (rate (finalSettings_of s customSettings))) \<and>
         in_range (1 / 10) 10 (utterance_rate u) \<and>
         utterance_pitch u =
           Math_max (Finite 0) (Math_min (Finite 2) (pitch (finalSettings_of s customSettings))) \<and>
         in_range 0 2 (utterance_pitch u) \<and>
         utterance_volume u =
           Math_max (Finite 0) (Math_min (Finite 1) (volume (finalSettings_of s customSettings))) \<and>
         in_range 0 1 (utterance_volume u)"
proof -
  define u where "u = utterance_of txt (finalSettings_of s customSettings) (availableVoices s)"
  have u: "event_try (speak supported txt customSettings) s =
       Inr (s\<lparr>synthesisError := None, isSpeaking := True,
              speechSynthesis := speechSynthesis s @ [u]\<rparr>)"
    "utterance_text u = txt"
    "utterance_rate u =
       Math_max (Finite (1 / 10)) (Math_min (Finite 10) (rate (finalSettings_of s customSettings)))"
    "utterance_pitch u =
       Math_max (Finite 0) (Math_min (Finite 2) (pitch (finalSettings_of s customSettings)))"
    "utterance_volume u =
       Math_max (Finite 0) (Math_min (Finite 1) (volume (finalSettings_of s customSettings)))"
    by (simp_all add: u_def speak_state [OF assms] utterance_of_def)
  have "in_range (1 / 10) 10 (utterance_rate u)"
    unfolding u(3) using assms(3) by (intro clamp_in_range) simp_all
  moreover have "in_range 0 2 (utterance_pitch u)"
    unfolding u(4) using assms(4) by (intro clamp_in_range) simp_all
  moreover have "in_range 0 1 (utterance_volume u)"
    unfolding u(5) using assms(5) by (intro clamp_in_range) simp_all
  ultimately show ?thesis
    using u by blast
qed

theorem speak_clamps_witness:
  "\<exists>u. event_try (speak True (lit ''hi'') (Some out_of_range)) initial_synthesis =
          Inr (initial_synthesis\<lparr>synthesisError := None, isSpeaking := True,
                 speechSynthesis := [u]\<rparr>) \<and>
        utterance_text u = lit ''hi'' \<and>
        utterance_rate u = Finite 10 \<and> utterance_pitch u = Finite 0 \<and>
        utterance_volume u = Finite 1"
  using speak_clamps [of True "lit ''hi''" initial_synthesis "Some out_of_range"]
  by (simp add: finalSettings_of_def out_of_range_def initial_synthesis_def spread_def lit_def
      Math_max_def Math_min_def) blast

text \<open>
  C9 as stated fails: not every call makes an utterance. With an empty text the call
  stores the error UnsupportedOrNoText and hands the platform nothing, whatever the
  settings; and a rate that is NaN stays NaN through \<^verbatim>\<open>Math.min\<close> and
  \<^verbatim>\<open>Math.max\<close>, and the assignment to the utterance throws.
\<close>

theorem speak_rejects:
  "event_try (speak True [] (Some out_of_range)) initial_synthesis =
     Inr (initial_synthesis\<lparr>synthesisError :=
            Some \<lparr>synthesis_err = lit ''UnsupportedOrNoText'',
                  utterance = new_SpeechSynthesisUtterance [],
                  synthesis_message = lit ''Speech Synthesis is not supported or no text provided.''\<rparr>\<rparr>) \<and>
   event_try (speak True (lit ''hi'') (Some (only_rate NaN))) initial_synthesis = Inl TypeError"
  by (simp add: speak_def finalSettings_of_def react_defs synthesis_setters only_rate_def
      spread_def initial_synthesis_def Math_max_def Math_min_def lit_def Let_def)

end
